theory Spec2Isabelle
  imports Main "HOL-Library.Word" "HOL-Library.AList"
begin

section \<open>Data model\<close>

text \<open>
  A token is an unsigned 32-bit integer; the SDK holds token sequences in a
  \<^verbatim>\<open>Uint32Array\<close>. A sequence is a list of tokens. Positions, lengths and the
  sums \<^verbatim>\<open>pos + length\<close> are JavaScript numbers and never wrap, so they are
  natural numbers here; a length field read from the stream is the unsigned value
  of its token.
\<close>

type_synonym token = "32 word"

text \<open>
  A JavaScript \<^verbatim>\<open>Map<number, readonly number[]>\<close> keeps its keys in insertion
  order, and \<^verbatim>\<open>map.set\<close> overwrites the value of a key that is present without
  moving it. An association list with \<^const>\<open>AList.update\<close> as \<^verbatim>\<open>set\<close> has
  exactly this behaviour; the empty list is \<^verbatim>\<open>new Map()\<close>.
\<close>

type_synonym dictionary = "(token \<times> token list) list"

text \<open>
  \<^verbatim>\<open>DEFAULT_CONFIG\<close> has every option of the configuration but
  \<^verbatim>\<open>staticDictionary\<close>, each with a value.
\<close>

datatype SelectionMode = greedy | optimal | beam

record ResolvedConfig =
  minSubsequenceLength :: nat
  maxSubsequenceLength :: nat
  selectionMode :: SelectionMode
  beamWidth :: nat
  hierarchicalEnabled :: bool
  hierarchicalMaxDepth :: nat
  streamingThreshold :: nat
  maxMemoryMb :: nat
  verify :: bool
  dictStartToken :: token
  dictEndToken :: token
  nextMetaToken :: token

text \<open>
  The configurations a caller passes have every field optional; an omitted field
  is \<^const>\<open>None\<close>. A decompression configuration holds the two control tokens,
  a compression configuration these and the other options. The static
  dictionary of a configuration is the name of a built-in dictionary or a
  dictionary object of the caller, of which the model keeps the \<^verbatim>\<open>id\<close>.
\<close>

datatype StaticDictionaryOption = BuiltIn string | Custom string

record DecompressionConfig =
  dictStartToken :: "token option"
  dictEndToken :: "token option"

record CompressionConfig = DecompressionConfig +
  minSubsequenceLength :: "nat option"
  maxSubsequenceLength :: "nat option"
  selectionMode :: "SelectionMode option"
  beamWidth :: "nat option"
  hierarchicalEnabled :: "bool option"
  hierarchicalMaxDepth :: "nat option"
  staticDictionary :: "StaticDictionaryOption option"
  streamingThreshold :: "nat option"
  maxMemoryMb :: "nat option"
  verify :: "bool option"
  nextMetaToken :: "token option"

text \<open>
  Modelled from the spec: the constant \<^verbatim>\<open>DEFAULT_CONFIG\<close> of \<^verbatim>\<open>config.ts\<close>,
  which is not among the sources. The values are those of the configuration
  table of the specification (section 6); the API reference prints the same
  literal, with the two options \<^verbatim>\<open>streamingThreshold\<close> and \<^verbatim>\<open>maxMemoryMb\<close>
  the table does not list, and \<^verbatim>\<open>tests/config.test.ts\<close> asserts the first
  seven.
\<close>

definition DEFAULT_CONFIG :: ResolvedConfig where
  "DEFAULT_CONFIG =
     \<lparr> ResolvedConfig.minSubsequenceLength = 2,
       ResolvedConfig.maxSubsequenceLength = 8,
       ResolvedConfig.selectionMode = greedy,
       ResolvedConfig.beamWidth = 8,
       ResolvedConfig.hierarchicalEnabled = True,
       ResolvedConfig.hierarchicalMaxDepth = 3,
       ResolvedConfig.streamingThreshold = 50000,
       ResolvedConfig.maxMemoryMb = 256,
       ResolvedConfig.verify = False,
       ResolvedConfig.dictStartToken = 0xFFFFFFF0,
       ResolvedConfig.dictEndToken = 0xFFFFFFF1,
       ResolvedConfig.nextMetaToken = 0xFFFF0000 \<rparr>"

text \<open>
  \<^verbatim>\<open>config?.field ?? fallback\<close>: the field of the configuration when the
  configuration is given and the field is set, the fallback otherwise.
\<close>

definition orDefault :: "'c option \<Rightarrow> ('c \<Rightarrow> 'v option) \<Rightarrow> 'v \<Rightarrow> 'v" where
  "orDefault config field fallback =
     (case Option.bind config field of Some v \<Rightarrow> v | None \<Rightarrow> fallback)"

text \<open>
  Modelled from the spec: \<^verbatim>\<open>normalizeTokens\<close> of \<^verbatim>\<open>types.ts\<close>, which is not
  among the sources. A token sequence is a finite sequence of unsigned 32-bit
  integers, and the conversion to a \<^verbatim>\<open>Uint32Array\<close> keeps such a sequence
  element for element (\<^verbatim>\<open>tests/types.test.ts\<close>).
\<close>

definition normalizeTokens :: "token list \<Rightarrow> token list" where
  "normalizeTokens tokens = tokens"

text \<open>
  \<^verbatim>\<open>indexOf\<close> gives the first position of a value, and \<^verbatim>\<open>-1\<close> when the value
  does not occur; \<^const>\<open>None\<close> stands for \<^verbatim>\<open>-1\<close>.
\<close>

fun indexOf :: "'a list \<Rightarrow> 'a \<Rightarrow> nat option" where
  "indexOf [] x = None"
| "indexOf (y # ys) x = (if y = x then Some 0 else map_option Suc (indexOf ys x))"

section \<open>Reading a serialized stream (\<^verbatim>\<open>decompress.ts\<close>)\<close>

text \<open>
  The entry loop of \<^verbatim>\<open>extractDictionary\<close>. An entry is a meta-token, a length
  field and that many definition tokens. The loop reads the meta-token and the
  length field without a bounds check. When the meta-token is the last token of
  the stream the length read is \<^verbatim>\<open>undefined\<close>: the guard
  \<^verbatim>\<open>pos + length > inputTokens.length\<close> compares \<^verbatim>\<open>NaN\<close> and is false,
  \<^verbatim>\<open>slice(pos, NaN)\<close> is empty, the meta-token is stored with the empty
  definition, and \<^verbatim>\<open>pos\<close> becomes \<^verbatim>\<open>NaN\<close>, which ends the loop.
\<close>

function extractDictionary_loop ::
  "token \<Rightarrow> token list \<Rightarrow> nat \<Rightarrow> dictionary \<Rightarrow> dictionary" where
  "extractDictionary_loop dictEnd inputTokens pos m =
     (if pos < length inputTokens \<and> inputTokens ! pos \<noteq> dictEnd then
        (let metaToken = inputTokens ! pos in
         if pos + 1 < length inputTokens then
           (let len = unat (inputTokens ! (pos + 1)) in
            if pos + 2 + len > length inputTokens then m
            else extractDictionary_loop dictEnd inputTokens (pos + 2 + len)
                   (AList.update metaToken (take len (drop (pos + 2) inputTokens)) m))
         else AList.update metaToken [] m)
      else m)"
  by pat_completeness auto
termination
  by (relation "measure (\<lambda>(dictEnd, inputTokens, pos, m). length inputTokens - pos)") auto

definition extractDictionary ::
  "token list \<Rightarrow> 'a DecompressionConfig_scheme option \<Rightarrow> dictionary" where
  "extractDictionary tokens config =
     (let inputTokens = normalizeTokens tokens;
          dictStart = orDefault config dictStartToken (ResolvedConfig.dictStartToken DEFAULT_CONFIG);
          dictEnd = orDefault config dictEndToken (ResolvedConfig.dictEndToken DEFAULT_CONFIG)
      in case indexOf inputTokens dictStart of
           None \<Rightarrow> []
         | Some startIdx \<Rightarrow> extractDictionary_loop dictEnd inputTokens (startIdx + 1) [])"

definition extractBody ::
  "token list \<Rightarrow> 'a DecompressionConfig_scheme option \<Rightarrow> token list" where
  "extractBody tokens config =
     (let inputTokens = normalizeTokens tokens;
          dictEnd = orDefault config dictEndToken (ResolvedConfig.dictEndToken DEFAULT_CONFIG)
      in case indexOf inputTokens dictEnd of
           None \<Rightarrow> inputTokens
         | Some endIdx \<Rightarrow> drop (endIdx + 1) inputTokens)"

definition isCompressed ::
  "token list \<Rightarrow> 'a DecompressionConfig_scheme option \<Rightarrow> bool" where
  "isCompressed tokens config =
     (let inputTokens = normalizeTokens tokens;
          dictStart = orDefault config dictStartToken (ResolvedConfig.dictStartToken DEFAULT_CONFIG)
      in dictStart \<in> set inputTokens)"

section \<open>The dictionary map of a compression result (\<^verbatim>\<open>compress.ts\<close>)\<close>

text \<open>
  \<^verbatim>\<open>buildDictionaryMap\<close> walks to the dictionary-start token with a loop of its
  own, steps over it, and parses entries as above. The control tokens are those
  of \<^verbatim>\<open>DEFAULT_CONFIG\<close>, whatever configuration the caller gave.
\<close>

function buildDictionaryMap_scan :: "token \<Rightarrow> token list \<Rightarrow> nat \<Rightarrow> nat" where
  "buildDictionaryMap_scan dictStart dictionaryTokens pos =
     (if pos < length dictionaryTokens \<and> dictionaryTokens ! pos \<noteq> dictStart
      then buildDictionaryMap_scan dictStart dictionaryTokens (pos + 1)
      else pos)"
  by pat_completeness auto
termination
  by (relation "measure (\<lambda>(dictStart, dictionaryTokens, pos). length dictionaryTokens - pos)") auto

function buildDictionaryMap_loop ::
  "token \<Rightarrow> token list \<Rightarrow> nat \<Rightarrow> dictionary \<Rightarrow> dictionary" where
  "buildDictionaryMap_loop dictEnd dictionaryTokens pos m =
     (if pos < length dictionaryTokens \<and> dictionaryTokens ! pos \<noteq> dictEnd then
        (let metaToken = dictionaryTokens ! pos in
         if pos + 1 < length dictionaryTokens then
           (let len = unat (dictionaryTokens ! (pos + 1)) in
            if pos + 2 + len > length dictionaryTokens then m
            else buildDictionaryMap_loop dictEnd dictionaryTokens (pos + 2 + len)
                   (AList.update metaToken (take len (drop (pos + 2) dictionaryTokens)) m))
         else AList.update metaToken [] m)
      else m)"
  by pat_completeness auto
termination
  by (relation "measure (\<lambda>(dictEnd, dictionaryTokens, pos, m). length dictionaryTokens - pos)") auto

definition buildDictionaryMap :: "token list \<Rightarrow> dictionary" where
  "buildDictionaryMap dictionaryTokens =
     (if length dictionaryTokens = 0 then []
      else
        (let dictStart = ResolvedConfig.dictStartToken DEFAULT_CONFIG;
             dictEnd = ResolvedConfig.dictEndToken DEFAULT_CONFIG;
             pos = buildDictionaryMap_scan dictStart dictionaryTokens 0
         in buildDictionaryMap_loop dictEnd dictionaryTokens (pos + 1) []))"

section \<open>The dictionary map of a streaming result (\<^verbatim>\<open>streaming.ts\<close>)\<close>

text \<open>
  The dictionary parser written out inside \<^verbatim>\<open>StreamingCompressorImpl.finish\<close>.
  Its control tokens are those of the merged configuration of the compressor.
\<close>

function finish_scan :: "token \<Rightarrow> token list \<Rightarrow> nat \<Rightarrow> nat" where
  "finish_scan dictStart dictionaryTokens pos =
     (if pos < length dictionaryTokens \<and> dictionaryTokens ! pos \<noteq> dictStart
      then finish_scan dictStart dictionaryTokens (pos + 1)
      else pos)"
  by pat_completeness auto
termination
  by (relation "measure (\<lambda>(dictStart, dictionaryTokens, pos). length dictionaryTokens - pos)") auto

function finish_loop ::
  "token \<Rightarrow> token list \<Rightarrow> nat \<Rightarrow> dictionary \<Rightarrow> dictionary" where
  "finish_loop dictEnd dictionaryTokens pos dictionaryMap =
     (if pos < length dictionaryTokens \<and> dictionaryTokens ! pos \<noteq> dictEnd then
        (let metaToken = dictionaryTokens ! pos in
         if pos + 1 < length dictionaryTokens then
           (let len = unat (dictionaryTokens ! (pos + 1)) in
            if pos + 2 + len > length dictionaryTokens then dictionaryMap
            else finish_loop dictEnd dictionaryTokens (pos + 2 + len)
                   (AList.update metaToken (take len (drop (pos + 2) dictionaryTokens)) dictionaryMap))
         else AList.update metaToken [] dictionaryMap)
      else dictionaryMap)"
  by pat_completeness auto
termination
  by (relation "measure (\<lambda>(dictEnd, dictionaryTokens, pos, m). length dictionaryTokens - pos)") auto

definition finish_dictionaryMap :: "ResolvedConfig \<Rightarrow> token list \<Rightarrow> dictionary" where
  "finish_dictionaryMap cfg dictionaryTokens =
     (let dictStart = ResolvedConfig.dictStartToken cfg;
          dictEnd = ResolvedConfig.dictEndToken cfg;
          pos = finish_scan dictStart dictionaryTokens 0
      in finish_loop dictEnd dictionaryTokens (pos + 1) [])"

section \<open>Errors and results\<close>

text \<open>
  A JavaScript exception is a value: \<^verbatim>\<open>new Error(message)\<close> of the SDK, or one
  of the error kinds of the core engine (section 7 of the specification), the
  kinds of the deserializer with the offset they report.
\<close>

datatype error =
    Error string
  | ConfigInvalid
  | TokenRangeCollision
  | MemoryExceeded
  | MalformedStream nat
  | UndefinedMetaToken nat
  | Cycle nat
  | Truncated nat
  | VerificationFailure nat

text \<open>
  The result object of the WebAssembly core, and the result of the SDK. The
  floating-point ratio and the metrics (timings, memory usage) are left out.
\<close>

record CompressionResultWasm =
  original_length :: nat
  compressed_length :: nat
  getSerializedTokens :: "token list"
  getDictionaryTokens :: "token list"
  getBodyTokens :: "token list"
  getOriginalTokens :: "token list"
  getStaticDictionaryId :: "string option"

record CompressionResult =
  originalTokens :: "token list"
  serializedTokens :: "token list"
  dictionaryTokens :: "token list"
  bodyTokens :: "token list"
  originalLength :: nat
  compressedLength :: nat
  dictionaryMap :: dictionary
  staticDictionaryId :: "string option"

text \<open>
  The core engine is a WebAssembly module that is not among the sources. Where
  the SDK calls it, the call is a parameter \<open>core\<close> of the model: a function
  from the configuration and the input tokens to an error or a result.
\<close>

type_synonym wasm_compress = "ResolvedConfig \<Rightarrow> token list \<Rightarrow> error + CompressionResultWasm"

text \<open>
  Modelled from the spec: \<^verbatim>\<open>mergeConfig\<close> of \<^verbatim>\<open>config.ts\<close>, which is not among
  the sources. Each option the caller omits takes the default of the
  configuration table (section 6); \<^verbatim>\<open>tests/config.test.ts\<close> asserts that no
  configuration gives the defaults and that a given field overrides its default.
\<close>

definition mergeConfig :: "CompressionConfig option \<Rightarrow> ResolvedConfig" where
  "mergeConfig config =
     \<lparr> ResolvedConfig.minSubsequenceLength =
         orDefault config minSubsequenceLength (ResolvedConfig.minSubsequenceLength DEFAULT_CONFIG),
       ResolvedConfig.maxSubsequenceLength =
         orDefault config maxSubsequenceLength (ResolvedConfig.maxSubsequenceLength DEFAULT_CONFIG),
       ResolvedConfig.selectionMode =
         orDefault config selectionMode (ResolvedConfig.selectionMode DEFAULT_CONFIG),
       ResolvedConfig.beamWidth =
         orDefault config beamWidth (ResolvedConfig.beamWidth DEFAULT_CONFIG),
       ResolvedConfig.hierarchicalEnabled =
         orDefault config hierarchicalEnabled (ResolvedConfig.hierarchicalEnabled DEFAULT_CONFIG),
       ResolvedConfig.hierarchicalMaxDepth =
         orDefault config hierarchicalMaxDepth (ResolvedConfig.hierarchicalMaxDepth DEFAULT_CONFIG),
       ResolvedConfig.streamingThreshold =
         orDefault config streamingThreshold (ResolvedConfig.streamingThreshold DEFAULT_CONFIG),
       ResolvedConfig.maxMemoryMb =
         orDefault config maxMemoryMb (ResolvedConfig.maxMemoryMb DEFAULT_CONFIG),
       ResolvedConfig.verify =
         orDefault config verify (ResolvedConfig.verify DEFAULT_CONFIG),
       ResolvedConfig.dictStartToken =
         orDefault config dictStartToken (ResolvedConfig.dictStartToken DEFAULT_CONFIG),
       ResolvedConfig.dictEndToken =
         orDefault config dictEndToken (ResolvedConfig.dictEndToken DEFAULT_CONFIG),
       ResolvedConfig.nextMetaToken =
         orDefault config nextMetaToken (ResolvedConfig.nextMetaToken DEFAULT_CONFIG) \<rparr>"

text \<open>
  \<^verbatim>\<open>discoverPatterns(tokens, minLength = 2, maxLength = 8)\<close>: the length bounds
  the function hands to the core, each argument optional.
\<close>

definition discoverPatterns_bounds :: "nat option \<Rightarrow> nat option \<Rightarrow> nat \<times> nat" where
  "discoverPatterns_bounds minLength maxLength =
     (case minLength of None \<Rightarrow> 2 | Some a \<Rightarrow> a, case maxLength of None \<Rightarrow> 8 | Some b \<Rightarrow> b)"

text \<open>
  The configuration \<^verbatim>\<open>decompress\<close> builds for the core: the two control tokens.
\<close>

definition decompress_wasmConfig :: "'a DecompressionConfig_scheme option \<Rightarrow> token \<times> token" where
  "decompress_wasmConfig config =
     (orDefault config dictStartToken (ResolvedConfig.dictStartToken DEFAULT_CONFIG),
      orDefault config dictEndToken (ResolvedConfig.dictEndToken DEFAULT_CONFIG))"

section \<open>The streaming compressor (\<^verbatim>\<open>streaming.ts\<close>)\<close>

text \<open>
  Modelled from the spec: the class \<^verbatim>\<open>StreamingCompressor\<close> of the WebAssembly
  core, which is not among the sources. The specification gives its interface:
  it accumulates the chunks and invokes \<^verbatim>\<open>compress\<close> once at \<^verbatim>\<open>finish\<close>. The
  field \<open>accumulated\<close> is the buffer; \<open>invocations\<close> records the argument of
  every call of the core compression this object has made.
\<close>

record StreamingCompressorWasm =
  wasmConfig :: ResolvedConfig
  accumulated :: "token list"
  invocations :: "token list list"

definition new_StreamingCompressorWasm :: "ResolvedConfig \<Rightarrow> StreamingCompressorWasm" where
  "new_StreamingCompressorWasm cfg =
     \<lparr> wasmConfig = cfg, accumulated = [], invocations = [] \<rparr>"

definition add_chunk :: "token list \<Rightarrow> StreamingCompressorWasm \<Rightarrow> StreamingCompressorWasm" where
  "add_chunk tokens w = w\<lparr> accumulated := accumulated w @ tokens \<rparr>"

definition wasm_finish ::
  "wasm_compress \<Rightarrow> StreamingCompressorWasm \<Rightarrow>
     StreamingCompressorWasm \<times> (error + CompressionResultWasm)" where
  "wasm_finish core w =
     (w\<lparr> invocations := invocations w @ [accumulated w] \<rparr>,
      core (wasmConfig w) (accumulated w))"

text \<open>
  The class \<^verbatim>\<open>StreamingCompressorImpl\<close>. A method takes the object and returns
  the object after the call with the outcome: \<^const>\<open>Inl\<close> an exception thrown,
  \<^const>\<open>Inr\<close> the value returned.
\<close>

record StreamingCompressorImpl =
  compressor :: StreamingCompressorWasm
  config :: ResolvedConfig
  finished :: bool
  totalChunks :: nat
  totalTokens :: nat

definition createStreamingCompressor :: "CompressionConfig option \<Rightarrow> StreamingCompressorImpl" where
  "createStreamingCompressor cfg =
     (let mergedConfig = mergeConfig cfg
      in \<lparr> compressor = new_StreamingCompressorWasm mergedConfig,
           config = mergedConfig,
           finished = False,
           totalChunks = 0,
           totalTokens = 0 \<rparr>)"

definition addChunk ::
  "token list \<Rightarrow> StreamingCompressorImpl \<Rightarrow> StreamingCompressorImpl \<times> (error + unit)" where
  "addChunk tokens this =
     (if finished this then (this, Inl (Error ''Cannot add chunks to a finished compressor''))
      else
        (let normalizedTokens = normalizeTokens tokens
         in (this\<lparr> compressor := add_chunk normalizedTokens (compressor this),
                    totalChunks := totalChunks this + 1,
                    totalTokens := totalTokens this + length normalizedTokens \<rparr>,
             Inr ())))"

text \<open>
  \<^verbatim>\<open>finish\<close> sets the flag before it calls the core, so the object is finished
  also when the core throws.
\<close>

definition finish ::
  "wasm_compress \<Rightarrow> StreamingCompressorImpl \<Rightarrow>
     StreamingCompressorImpl \<times> (error + CompressionResult)" where
  "finish core this =
     (if finished this then (this, Inl (Error ''Compressor has already been finished''))
      else
        (let this1 = this\<lparr> finished := True \<rparr>;
             (w, outcome) = wasm_finish core (compressor this1);
             this2 = this1\<lparr> compressor := w \<rparr>
         in case outcome of
              Inl e \<Rightarrow> (this2, Inl e)
            | Inr wasmResult \<Rightarrow>
                (this2,
                 Inr \<lparr> originalTokens = getOriginalTokens wasmResult,
                       serializedTokens = getSerializedTokens wasmResult,
                       dictionaryTokens = getDictionaryTokens wasmResult,
                       bodyTokens = getBodyTokens wasmResult,
                       originalLength = original_length wasmResult,
                       compressedLength = compressed_length wasmResult,
                       dictionaryMap = finish_dictionaryMap (config this2) (getDictionaryTokens wasmResult),
                       staticDictionaryId = None \<rparr>)))"

definition isFinished :: "StreamingCompressorImpl \<Rightarrow> bool" where
  "isFinished this = finished this"

text \<open>
  A caller's use of one compressor is a sequence of method calls. \<open>run\<close> makes
  the calls in order and collects the outcomes; a call that throws leaves the
  later calls to be made, as a caller that catches the exception would.
\<close>

datatype call = AddChunk "token list" | Finish

datatype outcome = Threw error | Added | Finished CompressionResult

fun run ::
  "wasm_compress \<Rightarrow> StreamingCompressorImpl \<Rightarrow> call list \<Rightarrow>
     StreamingCompressorImpl \<times> outcome list" where
  "run core this [] = (this, [])"
| "run core this (AddChunk tokens # calls) =
     (let (this1, r) = addChunk tokens this;
          (this2, rs) = run core this1 calls
      in (this2, (case r of Inl e \<Rightarrow> Threw e | Inr u \<Rightarrow> Added) # rs))"
| "run core this (Finish # calls) =
     (let (this1, r) = finish core this;
          (this2, rs) = run core this1 calls
      in (this2, (case r of Inl e \<Rightarrow> Threw e | Inr res \<Rightarrow> Finished res) # rs))"

fun threw :: "outcome \<Rightarrow> bool" where
  "threw (Threw e) = True"
| "threw Added = False"
| "threw (Finished res) = False"

text \<open>
  \<^verbatim>\<open>processInChunks\<close>. The chunk size is a non-negative integer. With chunk size
  0 and a non-empty input the loop of the source never ends; the model returns
  \<^const>\<open>None\<close> exactly when the loop does not return. The callback is a function
  of the chunk and its index whose promise resolves.
\<close>

partial_function (option) processInChunks_loop ::
  "(token list \<Rightarrow> nat \<Rightarrow> 'r) \<Rightarrow> nat \<Rightarrow> token list \<Rightarrow> nat \<Rightarrow> 'r list \<Rightarrow> 'r list option" where
  "processInChunks_loop callback chunkSize normalized i results =
     (if i < length normalized then
        (let endIdx = min (i + chunkSize) (length normalized);
             chunk = take (endIdx - i) (drop i normalized);
             result = callback chunk i
         in processInChunks_loop callback chunkSize normalized (i + chunkSize) (results @ [result]))
      else Some results)"

definition processInChunks ::
  "token list \<Rightarrow> nat \<Rightarrow> (token list \<Rightarrow> nat \<Rightarrow> 'r) \<Rightarrow> 'r list option" where
  "processInChunks tokens chunkSize callback =
     processInChunks_loop callback chunkSize (normalizeTokens tokens) 0 []"

section \<open>Decompression (\<^verbatim>\<open>decompress.ts\<close> and the core)\<close>

text \<open>
  \<^verbatim>\<open>decompress\<close> of the SDK normalizes the tokens, builds a configuration of the
  two control tokens and calls \<^verbatim>\<open>decompress\<close> of the WebAssembly core, which is a
  parameter \<open>core\<close> here. An exception of the core is an exception of the call.
\<close>

type_synonym wasm_decompress = "token \<Rightarrow> token \<Rightarrow> token list \<Rightarrow> error + token list"

definition decompress ::
  "wasm_decompress \<Rightarrow> token list \<Rightarrow> 'a DecompressionConfig_scheme option \<Rightarrow> error + token list" where
  "decompress core tokens cfg =
     (let inputTokens = normalizeTokens tokens;
          (dict_start_token, dict_end_token) = decompress_wasmConfig cfg
      in core dict_start_token dict_end_token inputTokens)"

text \<open>
  Modelled from the spec: the dictionary parser of the core's deserializer
  (section 4.5), which is not among the sources. Entries are parsed until the
  dictionary-end token, building the map from meta-token to definition. The
  failures are those the specification lists, each with the offset in the
  stream at which it is detected: the stream ends where a meta-token or the
  dictionary-end token is due, where a length field is due, or before a
  definition has the tokens its length field announces. A dictionary-end token
  among the tokens a length field announces cuts the definition short at its
  offset, as in scenario 5 of the specification (\<^verbatim>\<open>Truncated\<close> at index 5).
  The function takes the tokens that follow the dictionary-start token with
  the offset of the first of them, and returns the map, the body and the offset
  of the body.
\<close>

fun parseEntries ::
  "token \<Rightarrow> nat \<Rightarrow> token list \<Rightarrow> dictionary \<Rightarrow> error + (dictionary \<times> token list \<times> nat)" where
  "parseEntries dictEnd offset [] m = Inl (Truncated offset)"
| "parseEntries dictEnd offset (t # rest) m =
     (if t = dictEnd then Inr (m, rest, offset + 1)
      else
        (case rest of
           [] \<Rightarrow> Inl (Truncated (offset + 1))
         | l # rest' \<Rightarrow>
             (let len = unat l;
                  defn = takeWhile (\<lambda>x. x \<noteq> dictEnd) (take len rest')
              in if length defn < len then Inl (Truncated (offset + 2 + length defn))
                 else parseEntries dictEnd (offset + 2 + len) (drop len rest')
                        (AList.update t defn m))))"

text \<open>
  Modelled from the spec: the expansion of the deserializer (section 4.5). A
  token with an entry in the map is replaced by the expansion of its
  definition; the meta-tokens being expanded are marked (\<open>grey\<close>), and meeting
  a marked token again is a cycle. A token without an entry that lies in the
  meta range is an undefined meta-token; any other token is emitted as it is.
  The meta range is a predicate \<open>isMeta\<close>: the specification makes the ranges
  configuration, and the configuration the SDK hands to the core for
  decompression holds the control tokens only. An error carries the offset of
  the body token whose expansion met it. The memoization of expansions changes
  the work, not the result, and is not modelled.
\<close>

function expandToken ::
    "dictionary \<Rightarrow> (token \<Rightarrow> bool) \<Rightarrow> nat \<Rightarrow> token list \<Rightarrow> token \<Rightarrow> error + token list"
  and expandTokens ::
    "dictionary \<Rightarrow> (token \<Rightarrow> bool) \<Rightarrow> nat \<Rightarrow> token list \<Rightarrow> token list \<Rightarrow> error + token list" where
  "expandToken m isMeta offset grey t =
     (case map_of m t of
        None \<Rightarrow> if isMeta t then Inl (UndefinedMetaToken offset) else Inr [t]
      | Some defn \<Rightarrow>
          if t \<in> set grey then Inl (Cycle offset)
          else expandTokens m isMeta offset (t # grey) defn)"
| "expandTokens m isMeta offset grey [] = Inr []"
| "expandTokens m isMeta offset grey (t # ts) =
     (case expandToken m isMeta offset grey t of
        Inl e \<Rightarrow> Inl e
      | Inr xs \<Rightarrow>
          (case expandTokens m isMeta offset grey ts of
             Inl e \<Rightarrow> Inl e
           | Inr ys \<Rightarrow> Inr (xs @ ys)))"
  by pat_completeness auto
termination
proof (relation "measures
    [\<lambda>x. case x of Inl (m, isMeta, offset, grey, t) \<Rightarrow> card (fst ` set m - set grey)
               | Inr (m, isMeta, offset, grey, ts) \<Rightarrow> card (fst ` set m - set grey),
     \<lambda>x. case x of Inl (m, isMeta, offset, grey, t) \<Rightarrow> 0
               | Inr (m, isMeta, offset, grey, ts) \<Rightarrow> length ts + 1]", goal_cases)
  case 1
  show ?case by simp
next
  case (2 m isMeta offset grey t d)
  from 2(1) have "t \<in> fst ` set m"
    by (metis map_of_SomeD image_eqI fst_conv)
  with 2(2) have "fst ` set m - set (t # grey) \<subset> fst ` set m - set grey"
    by auto
  then have "card (fst ` set m - set (t # grey)) < card (fst ` set m - set grey)"
    by (intro psubset_card_mono) auto
  then show ?case by simp
next
  case 3
  then show ?case by simp
next
  case 4
  then show ?case by simp
qed

fun walkBody ::
  "dictionary \<Rightarrow> (token \<Rightarrow> bool) \<Rightarrow> nat \<Rightarrow> token list \<Rightarrow> error + token list" where
  "walkBody m isMeta offset [] = Inr []"
| "walkBody m isMeta offset (t # body) =
     (case expandToken m isMeta offset [] t of
        Inl e \<Rightarrow> Inl e
      | Inr xs \<Rightarrow>
          (case walkBody m isMeta (offset + 1) body of
             Inl e \<Rightarrow> Inl e
           | Inr ys \<Rightarrow> Inr (xs @ ys)))"

text \<open>
  Modelled from the spec: \<^verbatim>\<open>decompress\<close> of the core (section 4.5). Find the
  first dictionary-start token; if there is none, return the stream unchanged.
  Otherwise parse the entries that follow it, then walk the body.
\<close>

definition core_decompress :: "(token \<Rightarrow> bool) \<Rightarrow> wasm_decompress" where
  "core_decompress isMeta dictStart dictEnd w =
     (case indexOf w dictStart of
        None \<Rightarrow> Inr w
      | Some startIdx \<Rightarrow>
          (case parseEntries dictEnd (startIdx + 1) (drop (startIdx + 1) w) [] of
             Inl e \<Rightarrow> Inl e
           | Inr (m, body, bodyOffset) \<Rightarrow> walkBody m isMeta bodyOffset body))"

text \<open>
  Modelled from the spec: the meta range, from the first meta-token to allocate
  up to the dictionary-start token; with the defaults the tokens
  \<^verbatim>\<open>0xFFFF0000\<close> to \<^verbatim>\<open>0xFFFFFFEF\<close> (section 9).
\<close>

definition metaRange :: "token \<Rightarrow> token \<Rightarrow> token \<Rightarrow> bool" where
  "metaRange nextMeta dictStart t = (unat nextMeta \<le> unat t \<and> unat t < unat dictStart)"

section \<open>The wire format\<close>

text \<open>
  The entries of a dictionary section (section 4.4 of the specification): each
  entry is its meta-token, its length field and its definition tokens, one
  entry after the other.
\<close>

fun entryTokens :: "dictionary \<Rightarrow> token list" where
  "entryTokens [] = []"
| "entryTokens ((m, d) # es) = m # word_of_nat (length d) # d @ entryTokens es"

section \<open>The compression engine of the core\<close>

text \<open>
  The engine is in the WebAssembly core, which is not among the sources. Its
  discovery and selection stages (sections 4.1 to 4.3) are a parameter
  \<open>select\<close> of the model: a function from the configuration and a token
  sequence to a selection, the chosen patterns in selection order, each with
  the start positions of its chosen occurrences.
\<close>

type_synonym selection = "(token list \<times> nat list) list"

type_synonym select_stage = "ResolvedConfig \<Rightarrow> token list \<Rightarrow> selection"




text \<open>
  Modelled from the spec: the validation of the configuration, which is not
  among the sources. A configuration is invalid when its length bounds
  contradict each other, when its meta range is empty, or when its ranges
  overlap, the dictionary-end token lying in the meta range (sections 3 and 7).
\<close>

definition configInvalid :: "ResolvedConfig \<Rightarrow> bool" where
  "configInvalid cfg =
     (ResolvedConfig.maxSubsequenceLength cfg < ResolvedConfig.minSubsequenceLength cfg
      \<or> \<not> unat (ResolvedConfig.nextMetaToken cfg) < unat (ResolvedConfig.dictStartToken cfg)
      \<or> metaRange (ResolvedConfig.nextMetaToken cfg) (ResolvedConfig.dictStartToken cfg)
            (ResolvedConfig.dictEndToken cfg))"

text \<open>
  Modelled from the spec: validation (i) of the serializer (section 4.4). An
  input token collides when it falls in the meta range or is a control token.
\<close>

definition collides :: "ResolvedConfig \<Rightarrow> token \<Rightarrow> bool" where
  "collides cfg t =
     (t = ResolvedConfig.dictStartToken cfg \<or> t = ResolvedConfig.dictEndToken cfg
      \<or> metaRange (ResolvedConfig.nextMetaToken cfg) (ResolvedConfig.dictStartToken cfg) t)"

text \<open>
  Modelled from the spec: the meta-token allocation of the serializer (section
  4.4). Meta-tokens are assigned in selection order, the \<open>k\<close>-th pattern of a
  selection taking the \<open>k\<close>-th token from the first free one. The first
  function gives the dictionary entries of a selection, the second its chosen
  occurrences as start, length and meta-token.
\<close>

fun dictionaryEntries :: "token \<Rightarrow> selection \<Rightarrow> dictionary" where
  "dictionaryEntries next [] = []"
| "dictionaryEntries next ((p, starts) # sel) = (next, p) # dictionaryEntries (next + 1) sel"

fun occurrenceTable :: "token \<Rightarrow> selection \<Rightarrow> (nat \<times> nat \<times> token) list" where
  "occurrenceTable next [] = []"
| "occurrenceTable next ((p, starts) # sel) =
     map (\<lambda>s. (s, length p, next)) starts @ occurrenceTable (next + 1) sel"

text \<open>
  Modelled from the spec: the body of the serializer (section 4.4), the input
  with every selected occurrence replaced by the meta-token of its pattern.
  The input is walked from the left; an occurrence that starts at the current
  position is replaced by its meta-token and stepped over. The function takes
  the current position and the input from there on.
\<close>

function replaceFrom :: "(nat \<times> nat \<times> token) list \<Rightarrow> nat \<Rightarrow> token list \<Rightarrow> token list" where
  "replaceFrom occs pos [] = []"
| "replaceFrom occs pos (t # ts) =
     (case find (\<lambda>(s, len, m). s = pos \<and> 0 < len) occs of
        Some (s, len, m) \<Rightarrow> m # replaceFrom occs (pos + len) (drop len (t # ts))
      | None \<Rightarrow> t # replaceFrom occs (pos + 1) ts)"
  by pat_completeness auto
termination
  by (relation "measure (\<lambda>(occs, pos, ts). length ts)") (auto simp: find_Some_iff)

text \<open>
  Modelled from the spec: the passes of the hierarchical driver (sections 2,
  3 and 4.6). A pass selects on the body of the pass before, whose meta-tokens
  it treats as ordinary tokens, and takes its meta-tokens from where the pass
  before stopped, so that the passes use disjoint parts of the meta range. The
  driver stops after the given number of passes or when a pass selects nothing.
  The dictionary holds the entries of the passes in pass order: every
  meta-token in a definition is defined earlier in the stream. Validation (ii)
  of the serializer, that the meta range has a free token for every selected
  pattern, is made in every pass; the specification names no error kind for
  it, and the model raises \<^verbatim>\<open>ConfigInvalid\<close>.
\<close>

fun passes ::
  "select_stage \<Rightarrow> ResolvedConfig \<Rightarrow> nat \<Rightarrow> token \<Rightarrow> token list \<Rightarrow> error + (dictionary \<times> token list)" where
  "passes select cfg 0 next b = Inr ([], b)"
| "passes select cfg (Suc depth) next b =
     (let sel = select cfg b in
      if sel = [] then Inr ([], b)
      else if unat (ResolvedConfig.dictStartToken cfg) - unat next < length sel then Inl ConfigInvalid
      else
        (let entries = dictionaryEntries next sel;
             body = replaceFrom (occurrenceTable next sel) 0 b
         in case passes select cfg depth (next + word_of_nat (length sel)) body of
              Inl e \<Rightarrow> Inl e
            | Inr (es, final) \<Rightarrow> Inr (entries @ es, final)))"

text \<open>
  Modelled from the spec: validation (iii) of the serializer (section 4.4):
  every meta-token in a definition has its entry earlier in the dictionary.
\<close>

fun definedEarlier :: "(token \<Rightarrow> bool) \<Rightarrow> token list \<Rightarrow> dictionary \<Rightarrow> bool" where
  "definedEarlier isMeta seen [] = True"
| "definedEarlier isMeta seen ((m, d) # es) =
     (list_all (\<lambda>t. \<not> isMeta t \<or> t \<in> set seen) d \<and> definedEarlier isMeta (m # seen) es)"

text \<open>The first offset at which two sequences differ, for a failed verification.\<close>

fun firstDifference :: "token list \<Rightarrow> token list \<Rightarrow> nat" where
  "firstDifference (x # xs) (y # ys) = (if x = y then Suc (firstDifference xs ys) else 0)"
| "firstDifference xs ys = 0"

text \<open>
  Modelled from the spec: \<^verbatim>\<open>compress\<close> of the core, which is not among the
  sources (sections 4.4, 4.6, 6 and 7). The configuration and the input are
  validated; the buffer estimate, a parameter, is compared with the memory cap;
  the passes run, one pass when hierarchical compression is off; the stream is
  the dictionary section and the body, and the input itself when nothing was
  selected; with \<^verbatim>\<open>verify\<close> the stream is decompressed and compared with the
  input. The specification names no error kind for validation (iii), for which
  the model raises a plain error.
\<close>

definition core_compress :: "select_stage \<Rightarrow> (token list \<Rightarrow> nat) \<Rightarrow> wasm_compress" where
  "core_compress select bufferEstimate cfg t =
     (if configInvalid cfg then Inl ConfigInvalid
      else if list_ex (collides cfg) t then Inl TokenRangeCollision
      else if ResolvedConfig.maxMemoryMb cfg * 1048576 < bufferEstimate t then Inl MemoryExceeded
      else
        (case passes select cfg
                (if ResolvedConfig.hierarchicalEnabled cfg then ResolvedConfig.hierarchicalMaxDepth cfg else 1)
                (ResolvedConfig.nextMetaToken cfg) t of
           Inl e \<Rightarrow> Inl e
         | Inr (entries, body) \<Rightarrow>
             (let isMeta = metaRange (ResolvedConfig.nextMetaToken cfg) (ResolvedConfig.dictStartToken cfg);
                  dict = (if entries = [] then []
                          else ResolvedConfig.dictStartToken cfg # entryTokens entries
                               @ [ResolvedConfig.dictEndToken cfg]);
                  w = dict @ body;
                  result = \<lparr> original_length = length t,
                             compressed_length = length w,
                             getSerializedTokens = w,
                             getDictionaryTokens = dict,
                             getBodyTokens = body,
                             getOriginalTokens = t,
                             getStaticDictionaryId = None \<rparr>
              in if \<not> definedEarlier isMeta [] entries
                 then Inl (Error ''meta-token referenced before its definition'')
                 else if ResolvedConfig.verify cfg then
                   (case core_decompress isMeta (ResolvedConfig.dictStartToken cfg)
                           (ResolvedConfig.dictEndToken cfg) w of
                      Inl e \<Rightarrow> Inl e
                    | Inr t' \<Rightarrow> if t' = t then Inr result
                                else Inl (VerificationFailure (firstDifference t t')))
                 else Inr result)))"

section \<open>Compression (\<^verbatim>\<open>compress.ts\<close>)\<close>




text \<open>
  The static dictionary of \<^verbatim>\<open>compress\<close>. A built-in dictionary is loaded to
  check that it exists; the loader is not among the sources and is a parameter
  \<open>loadStaticDictionary\<close>, which gives the exception it throws, if any. The
  empty name is falsy and counts as no dictionary. The dictionary is not
  applied to the input.
\<close>

definition staticDictionaryId ::
  "(string \<Rightarrow> error option) \<Rightarrow> StaticDictionaryOption option \<Rightarrow> error + string option" where
  "staticDictionaryId loadStaticDictionary dict =
     (case dict of
        None \<Rightarrow> Inr None
      | Some (BuiltIn name) \<Rightarrow>
          if name = [] then Inr None
          else (case loadStaticDictionary name of Some e \<Rightarrow> Inl e | None \<Rightarrow> Inr (Some name))
      | Some (Custom ident) \<Rightarrow> Inr (Some ident))"


section \<open>Vocabulary of the statements\<close>

text \<open>
  An entry list is well formed for a dictionary-end token when no meta-token
  and no length field equals that token, and every definition is short enough
  for its length to fit the 32-bit length field.
\<close>

definition wellFormedEntries :: "token \<Rightarrow> dictionary \<Rightarrow> bool" where
  "wellFormedEntries dictEnd es =
     list_all (\<lambda>(m, d). m \<noteq> dictEnd \<and> length d < 2 ^ 32 \<and> word_of_nat (length d) \<noteq> dictEnd) es"

text \<open>\<^verbatim>\<open>map.set\<close> of every entry of a list in turn, on a given map.\<close>

fun setAll :: "dictionary \<Rightarrow> dictionary \<Rightarrow> dictionary" where
  "setAll [] m = m"
| "setAll ((k, d) # es) m = setAll es (AList.update k d m)"

text \<open>
  The number of chunks of a sequence of \<open>n\<close> tokens cut into chunks of \<open>c\<close>
  tokens, \<open>\<lceil>n / c\<rceil>\<close>, and the \<open>k\<close>-th such chunk.
\<close>

definition chunkCount :: "nat \<Rightarrow> nat \<Rightarrow> nat" where
  "chunkCount n c = (n + c - 1) div c"

definition chunkAt :: "nat \<Rightarrow> token list \<Rightarrow> nat \<Rightarrow> token list" where
  "chunkAt c ts k = take c (drop (k * c) ts)"





text \<open>
  Selection stages, static dictionaries and a buffer estimate for running the
  engine: a stage that knows the input of scenario 1 of the specification, a
  stage that selects in two passes on one input, a loader that knows no
  dictionary, and four bytes for a token.
\<close>

definition scenarioSelect :: select_stage where
  "scenarioSelect cfg b = (if b = [1, 2, 3, 1, 2, 3, 1, 2, 3] then [([1, 2, 3], [0, 3, 6])] else [])"





text \<open>A core whose compression always throws, for running the streaming compressor.\<close>

definition failingCore :: wasm_compress where
  "failingCore cfg ts = Inl MemoryExceeded"

text \<open>
  The recursive equations of the loops are applied by hand in the proofs and
  given to the simplifier only to evaluate a loop on a concrete stream.
\<close>

declare extractDictionary_loop.simps [simp del]
declare buildDictionaryMap_loop.simps [simp del]
declare buildDictionaryMap_scan.simps [simp del]
declare finish_loop.simps [simp del]
declare finish_scan.simps [simp del]

lemmas evaluate =
  extractDictionary_def extractBody_def isCompressed_def normalizeTokens_def orDefault_def
  DEFAULT_CONFIG_def decompress_wasmConfig_def wellFormedEntries_def
  extractDictionary_loop.simps buildDictionaryMap_def buildDictionaryMap_loop.simps
  buildDictionaryMap_scan.simps

section \<open>Positions in a sequence\<close>

lemma indexOf_None: "indexOf xs x = None \<longleftrightarrow> x \<notin> set xs"
  by (induction xs) auto

lemma indexOf_first: "x \<notin> set pre \<Longrightarrow> indexOf (pre @ x # rest) x = Some (length pre)"
  by (induction pre) auto

lemma indexOf_Some: "indexOf xs x = Some i \<Longrightarrow> i < length xs \<and> xs ! i = x \<and> x \<notin> set (take i xs)"
proof (induction xs arbitrary: i)
  case Nil then show ?case by simp
next
  case (Cons y ys)
  show ?case
  proof (cases "y = x")
    case True with Cons.prems show ?thesis by simp
  next
    case False
    with Cons.prems obtain j where j: "indexOf ys x = Some j" "i = Suc j" by auto
    from Cons.IH[OF j(1)] False j(2) show ?thesis by simp
  qed
qed

lemma unat_len: "n < 2 ^ 32 \<Longrightarrow> unat (word_of_nat n :: token) = n"
  by (simp add: unat_of_nat)

lemma loop_entries:
  "wellFormedEntries dictEnd es \<Longrightarrow>
   extractDictionary_loop dictEnd (pre @ entryTokens es @ rest) (length pre) m =
   extractDictionary_loop dictEnd (pre @ entryTokens es @ rest) (length pre + length (entryTokens es)) (setAll es m)"
proof (induction es arbitrary: pre m)
  case Nil
  then show ?case by simp
next
  case (Cons e es)
  obtain k d where e: "e = (k, d)" by (cases e)
  from Cons.prems e have k: "k \<noteq> dictEnd" and d: "length d < 2 ^ 32" and wf: "wellFormedEntries dictEnd es"
    by (auto simp: wellFormedEntries_def)
  let ?ts = "pre @ entryTokens (e # es) @ rest"
  let ?pre' = "pre @ k # word_of_nat (length d) # d"
  have ts: "?ts = ?pre' @ entryTokens es @ rest" by (simp add: e)
  have a: "length pre < length ?ts" "?ts ! length pre = k" by (simp_all add: e nth_append)
  have b: "length pre + 1 < length ?ts" "?ts ! (length pre + 1) = word_of_nat (length d)"
    by (simp_all add: e nth_append)
  have c: "take (length d) (drop (length pre + 2) ?ts) = d" by (simp add: e)
  have fit: "\<not> length pre + 2 + length d > length ?ts" by (simp add: e)
  have step: "extractDictionary_loop dictEnd ?ts (length pre) m =
      extractDictionary_loop dictEnd ?ts (length pre + 2 + length d) (AList.update k d m)"
    apply (subst extractDictionary_loop.simps)
    using a b c fit k d by (simp add: unat_len Let_def del: extractDictionary_loop.simps)
  have "extractDictionary_loop dictEnd ?ts (length ?pre') (AList.update k d m) =
        extractDictionary_loop dictEnd ?ts (length ?pre' + length (entryTokens es)) (setAll es (AList.update k d m))"
    unfolding ts by (rule Cons.IH[OF wf])
  with step show ?case by (simp add: e add.assoc)
qed


lemma loop_past_end: "length ts \<le> pos \<Longrightarrow> extractDictionary_loop e ts pos m = m"
  by (subst extractDictionary_loop.simps) simp

lemma loop_at_end_token: "pos < length ts \<Longrightarrow> ts ! pos = e \<Longrightarrow> extractDictionary_loop e ts pos m = m"
  by (subst extractDictionary_loop.simps) simp

lemma loop_overrun:
  assumes "pos + 1 < length ts" "ts ! pos \<noteq> e" "pos + 2 + unat (ts ! (pos + 1)) > length ts"
  shows "extractDictionary_loop e ts pos m = m"
  using assms by (subst extractDictionary_loop.simps) (simp add: Let_def)

lemma buildDictionaryMap_loop_eq:
  "buildDictionaryMap_loop e ts pos m = extractDictionary_loop e ts pos m"
proof (induction e ts pos m rule: extractDictionary_loop.induct)
  case (1 dictEnd inputTokens pos m)
  show ?case
    apply (subst buildDictionaryMap_loop.simps)
    apply (subst extractDictionary_loop.simps)
    using 1 by (simp add: Let_def del: buildDictionaryMap_loop.simps extractDictionary_loop.simps)
qed

lemma finish_loop_eq:
  "finish_loop e ts pos m = extractDictionary_loop e ts pos m"
proof (induction e ts pos m rule: extractDictionary_loop.induct)
  case (1 dictEnd inputTokens pos m)
  show ?case
    apply (subst finish_loop.simps)
    apply (subst extractDictionary_loop.simps)
    using 1 by (simp add: Let_def del: finish_loop.simps extractDictionary_loop.simps)
qed

lemma finish_scan_eq: "finish_scan x ts pos = buildDictionaryMap_scan x ts pos"
proof (induction x ts pos rule: buildDictionaryMap_scan.induct)
  case (1 dictStart dictionaryTokens pos)
  show ?case
    apply (subst finish_scan.simps)
    apply (subst buildDictionaryMap_scan.simps)
    using 1 by (simp del: finish_scan.simps buildDictionaryMap_scan.simps)
qed

lemma scan_indexOf:
  "pos \<le> length ts \<Longrightarrow>
   buildDictionaryMap_scan x ts pos =
     (case indexOf (drop pos ts) x of None \<Rightarrow> length ts | Some i \<Rightarrow> pos + i)"
proof (induction x ts pos rule: buildDictionaryMap_scan.induct)
  case (1 dictStart ts pos)
  show ?case
  proof (cases "pos < length ts")
    case False
    with 1(2) show ?thesis by (subst buildDictionaryMap_scan.simps) simp
  next
    case True
    then have dr: "drop pos ts = ts ! pos # drop (Suc pos) ts" by (simp add: Cons_nth_drop_Suc)
    show ?thesis
    proof (cases "ts ! pos = dictStart")
      case True
      with \<open>pos < length ts\<close> dr show ?thesis by (subst buildDictionaryMap_scan.simps) simp
    next
      case False
      with True 1(1) have "buildDictionaryMap_scan dictStart ts (pos + 1) =
         (case indexOf (drop (pos + 1) ts) dictStart of None \<Rightarrow> length ts | Some i \<Rightarrow> pos + 1 + i)"
        by simp
      with True False dr show ?thesis
        by (subst buildDictionaryMap_scan.simps) (simp split: option.splits)
    qed
  qed
qed

lemma buildDictionaryMap_eq:
  "buildDictionaryMap ts = extractDictionary ts (None :: DecompressionConfig option)"
proof (cases "indexOf ts (ResolvedConfig.dictStartToken DEFAULT_CONFIG)")
  case None
  then show ?thesis
    using scan_indexOf[of 0 ts "ResolvedConfig.dictStartToken DEFAULT_CONFIG"]
    by (simp add: buildDictionaryMap_def extractDictionary_def normalizeTokens_def orDefault_def
        buildDictionaryMap_loop_eq loop_past_end Let_def)
next
  case (Some i)
  then show ?thesis
    using scan_indexOf[of 0 ts "ResolvedConfig.dictStartToken DEFAULT_CONFIG"]
    by (auto simp add: buildDictionaryMap_def extractDictionary_def normalizeTokens_def orDefault_def
        buildDictionaryMap_loop_eq Let_def)
qed

lemma finish_dictionaryMap_eq:
  "finish_dictionaryMap (config (createStreamingCompressor None)) ts =
     extractDictionary ts (None :: DecompressionConfig option)"
proof -
  have c: "ResolvedConfig.dictStartToken (config (createStreamingCompressor None)) = ResolvedConfig.dictStartToken DEFAULT_CONFIG"
     "ResolvedConfig.dictEndToken (config (createStreamingCompressor None)) = ResolvedConfig.dictEndToken DEFAULT_CONFIG"
    by (simp_all add: createStreamingCompressor_def mergeConfig_def orDefault_def Let_def)
  show ?thesis
  proof (cases "indexOf ts (ResolvedConfig.dictStartToken DEFAULT_CONFIG)")
    case None
    then show ?thesis
      using scan_indexOf[of 0 ts "ResolvedConfig.dictStartToken DEFAULT_CONFIG"]
      by (simp add: finish_dictionaryMap_def c extractDictionary_def normalizeTokens_def orDefault_def
          finish_loop_eq finish_scan_eq loop_past_end Let_def)
  next
    case (Some i)
    then show ?thesis
      using scan_indexOf[of 0 ts "ResolvedConfig.dictStartToken DEFAULT_CONFIG"]
      by (simp add: finish_dictionaryMap_def c extractDictionary_def normalizeTokens_def orDefault_def
          finish_loop_eq finish_scan_eq Let_def)
  qed
qed

section \<open>Dictionary extraction\<close>

lemma map_of_setAll: "map_of (setAll es m) = map_of (rev es @ m)"
proof (induction es arbitrary: m)
  case Nil then show ?case by simp
next
  case (Cons e es)
  obtain k d where e: "e = (k, d)" by (cases e)
  show ?case by (simp add: e Cons.IH update_conv' map_add_def fun_eq_iff split: option.splits)
qed

lemma update_fresh: "k \<notin> fst ` set m \<Longrightarrow> AList.update k v m = m @ [(k, v)]"
  by (induction m) auto

lemma setAll_distinct:
  "distinct (map fst es) \<Longrightarrow> fst ` set es \<inter> fst ` set m = {} \<Longrightarrow> setAll es m = m @ es"
proof (induction es arbitrary: m)
  case Nil then show ?case by simp
next
  case (Cons e es)
  obtain k d where e: "e = (k, d)" by (cases e)
  from Cons.prems e have k: "k \<notin> fst ` set m" by auto
  from Cons.prems e have "distinct (map fst es)" "fst ` set es \<inter> fst ` set (m @ [(k, d)]) = {}"
    by auto
  from Cons.IH[OF this] show ?case by (simp add: e update_fresh[OF k])
qed

lemma tokens_of_cfg:
  "decompress_wasmConfig cfg = (dictStart, dictEnd) \<Longrightarrow>
   orDefault cfg dictStartToken (ResolvedConfig.dictStartToken DEFAULT_CONFIG) = dictStart \<and>
   orDefault cfg dictEndToken (ResolvedConfig.dictEndToken DEFAULT_CONFIG) = dictEnd"
  by (simp add: decompress_wasmConfig_def)

lemma extractDictionary_entries:
  assumes cfg: "decompress_wasmConfig cfg = (dictStart, dictEnd)"
    and wf: "wellFormedEntries dictEnd es"
    and stop: "rest = [] \<or> hd rest = dictEnd \<or>
               (\<exists>m len tl. rest = m # len # tl \<and> m \<noteq> dictEnd \<and> length tl < unat len)"
  shows "extractDictionary (dictStart # entryTokens es @ rest) cfg = setAll es []"
proof -
  let ?ts = "dictStart # entryTokens es @ rest"
  let ?p = "length [dictStart] + length (entryTokens es)"
  have idx: "indexOf ?ts dictStart = Some 0" by simp
  have "extractDictionary_loop dictEnd ([dictStart] @ entryTokens es @ rest) (length [dictStart]) [] =
        extractDictionary_loop dictEnd ([dictStart] @ entryTokens es @ rest) ?p (setAll es [])"
    by (rule loop_entries[OF wf])
  moreover have "extractDictionary_loop dictEnd ([dictStart] @ entryTokens es @ rest) ?p (setAll es []) = setAll es []"
    using stop
  proof (elim disjE exE conjE)
    assume "rest = []"
    then show ?thesis by (intro loop_past_end) simp
  next
    assume h: "hd rest = dictEnd"
    show ?thesis
    proof (cases rest)
      case Nil then show ?thesis by (intro loop_past_end) simp
    next
      case (Cons r rs)
      with h show ?thesis by (intro loop_at_end_token) (simp_all add: nth_append)
    qed
  next
    fix m len tl assume r: "rest = m # len # tl" "m \<noteq> dictEnd" "length tl < unat len"
    have n1: "([dictStart] @ entryTokens es @ rest) ! ?p = m"
      using r(1) by (simp add: nth_append)
    have n2: "([dictStart] @ entryTokens es @ rest) ! (?p + 1) = len"
      using r(1) by (simp add: nth_append)
    show ?thesis
      apply (rule loop_overrun)
      using r n1 n2 by simp_all
  qed
  ultimately show ?thesis
    using tokens_of_cfg[OF cfg] idx by (simp add: extractDictionary_def normalizeTokens_def)
qed

lemma entryTokens_no_end:
  "wellFormedEntries dictEnd es \<Longrightarrow> list_all (\<lambda>(m, d). dictEnd \<notin> set d) es \<Longrightarrow>
   dictEnd \<notin> set (entryTokens es)"
proof (induction es)
  case Nil then show ?case by simp
next
  case (Cons e es)
  obtain k d where e: "e = (k, d)" by (cases e)
  with Cons show ?case by (auto simp: wellFormedEntries_def)
qed

lemma extractBody_after_end:
  assumes cfg: "decompress_wasmConfig cfg = (dictStart, dictEnd)"
    and "dictEnd \<notin> set pre"
  shows "extractBody (pre @ dictEnd # body) cfg = body"
  using tokens_of_cfg[OF cfg] indexOf_first[OF assms(2), of body]
  by (simp add: extractBody_def normalizeTokens_def)

text \<open>
  Claim C4, as amended. Take a stream \<^verbatim>\<open>[DICT_START, m_0, len_0, def_0 ..., DICT_END, body]\<close>
  whose entries are well formed: every \<open>def_i\<close> has exactly \<open>len_i\<close> tokens and no
  meta-token or length field is the dictionary-end token. Then
  \<^verbatim>\<open>extractDictionary\<close> returns the map of the entries: a meta-token that
  occurs in several entries has the definition of the last of them, and when
  the meta-tokens are distinct the map is the entry list itself, in stream
  order. When moreover no definition token is the dictionary-end token and the
  two control tokens differ, \<^verbatim>\<open>extractBody\<close> returns exactly the body.
\<close>

theorem extract_well_formed_stream:
  assumes cfg: "decompress_wasmConfig cfg = (dictStart, dictEnd)"
    and wf: "wellFormedEntries dictEnd es"
  shows "map_of (extractDictionary (dictStart # entryTokens es @ dictEnd # body) cfg) = map_of (rev es)
       \<and> (distinct (map fst es) \<longrightarrow>
            extractDictionary (dictStart # entryTokens es @ dictEnd # body) cfg = es)
       \<and> (dictStart \<noteq> dictEnd \<and> list_all (\<lambda>(m, d). dictEnd \<notin> set d) es \<longrightarrow>
            extractBody (dictStart # entryTokens es @ dictEnd # body) cfg = body)"
proof -
  have d: "extractDictionary (dictStart # entryTokens es @ dictEnd # body) cfg = setAll es []"
    by (rule extractDictionary_entries[OF cfg wf]) simp
  have b: "extractBody (dictStart # entryTokens es @ dictEnd # body) cfg = body"
    if "dictStart \<noteq> dictEnd" "list_all (\<lambda>(m, d). dictEnd \<notin> set d) es"
    using extractBody_after_end[OF cfg, of "dictStart # entryTokens es" body]
      entryTokens_no_end[OF wf that(2)] that(1) by simp
  show ?thesis using b by (simp add: d map_of_setAll setAll_distinct)
qed

text \<open>The stream of \<^verbatim>\<open>tests/types.test.ts\<close>, under the default configuration.\<close>

theorem extract_well_formed_stream_witness:
  "map_of (extractDictionary [0xFFFFFFF0, 0xFFFF0000, 3, 1, 2, 3, 0xFFFFFFF1, 0xFFFF0000, 4, 5] (None :: DecompressionConfig option))
     = map_of [(0xFFFF0000, [1, 2, 3])]
   \<and> extractDictionary [0xFFFFFFF0, 0xFFFF0000, 3, 1, 2, 3, 0xFFFFFFF1, 0xFFFF0000, 4, 5] (None :: DecompressionConfig option)
     = [(0xFFFF0000, [1, 2, 3])]
   \<and> extractBody [0xFFFFFFF0, 0xFFFF0000, 3, 1, 2, 3, 0xFFFFFFF1, 0xFFFF0000, 4, 5] (None :: DecompressionConfig option)
     = [0xFFFF0000, 4, 5]"
  using extract_well_formed_stream[of "None :: DecompressionConfig option" "0xFFFFFFF0" "0xFFFFFFF1" "[(0xFFFF0000, [1, 2, 3])]" "[0xFFFF0000, 4, 5]"]
  by (simp add: decompress_wasmConfig_def orDefault_def DEFAULT_CONFIG_def wellFormedEntries_def)

text \<open>
  Claim C4 as stated fails for \<^verbatim>\<open>extractBody\<close>, which cuts the stream after
  the first dictionary-end token wherever it stands. In the stream
  \<^verbatim>\<open>[DICT_START, M, 1, DICT_END, DICT_END, 9]\<close> the one definition is the token
  \<^verbatim>\<open>DICT_END\<close> itself; the entry is well formed and the body is \<^verbatim>\<open>[9]\<close>, yet
  \<^verbatim>\<open>extractBody\<close> returns \<^verbatim>\<open>[DICT_END, 9]\<close>. With a configuration that makes
  7 both control tokens, the stream \<^verbatim>\<open>[7, 7, 9]\<close> has no entries and the body
  \<^verbatim>\<open>[9]\<close>, and \<^verbatim>\<open>extractBody\<close> returns \<^verbatim>\<open>[7, 9]\<close>.
\<close>

theorem extractBody_cuts_inside_definition:
  "wellFormedEntries 0xFFFFFFF1 [(0xFFFF0000, [0xFFFFFFF1])]
   \<and> extractBody (0xFFFFFFF0 # entryTokens [(0xFFFF0000, [0xFFFFFFF1])] @ 0xFFFFFFF1 # [9])
        (None :: DecompressionConfig option) = [0xFFFFFFF1, 9]
   \<and> wellFormedEntries 7 []
   \<and> extractBody (7 # entryTokens [] @ 7 # [9])
        (Some \<lparr> dictStartToken = Some 7, dictEndToken = Some 7 \<rparr>) = [7, 9]"
  by (simp add: evaluate)

text \<open>
  Claim C9, as amended. For every token sequence that does not contain the
  dictionary-start token \<^verbatim>\<open>isCompressed\<close> returns false; for every token
  sequence that does not contain the dictionary-end token \<^verbatim>\<open>extractBody\<close>
  returns the sequence unchanged.
\<close>

theorem plain_sequence_not_compressed_body_unchanged:
  assumes "decompress_wasmConfig cfg = (dictStart, dictEnd)"
  shows "(dictStart \<notin> set W \<longrightarrow> \<not> isCompressed W cfg)
       \<and> (dictEnd \<notin> set W \<longrightarrow> extractBody W cfg = W)"
  using tokens_of_cfg[OF assms]
  by (simp add: isCompressed_def extractBody_def normalizeTokens_def indexOf_None[THEN iffD2])

theorem plain_sequence_not_compressed_body_unchanged_witness:
  "\<not> isCompressed [1, 2, 3, 4, 5] (None :: DecompressionConfig option)
   \<and> extractBody [1, 2, 3, 4, 5] (None :: DecompressionConfig option) = [1, 2, 3, 4, 5]"
  using plain_sequence_not_compressed_body_unchanged[of "None :: DecompressionConfig option" "0xFFFFFFF0" "0xFFFFFFF1" "[1, 2, 3, 4, 5]"]
  by (simp add: decompress_wasmConfig_def orDefault_def DEFAULT_CONFIG_def)

text \<open>
  Claim C9 as stated fails: \<^verbatim>\<open>extractBody\<close> looks for the dictionary-end token,
  not for the dictionary-start token. The sequence \<^verbatim>\<open>[1, DICT_END, 2]\<close> has no
  dictionary-start token and is not compressed, and its body is \<^verbatim>\<open>[2]\<close>.
\<close>

theorem extractBody_cuts_without_start_token:
  "0xFFFFFFF0 \<notin> set [1, 0xFFFFFFF1, 2 :: token]
   \<and> \<not> isCompressed [1, 0xFFFFFFF1, 2] (None :: DecompressionConfig option)
   \<and> extractBody [1, 0xFFFFFFF1, 2] (None :: DecompressionConfig option) = [2]"
  by (simp add: evaluate)

text \<open>
  Claim C3, as amended. When, after well-formed entries, an entry has its
  meta-token and its length field but the length field points past the end of
  the stream, the dictionary parsers of the SDK raise no error: they stop at
  that entry and return the map of the entries before it. Likewise, when the
  stream ends after well-formed entries, without a dictionary-end token, they
  return the map of these entries. This holds for \<^verbatim>\<open>extractDictionary\<close> under
  every configuration and for \<^verbatim>\<open>buildDictionaryMap\<close>, which reads with the
  default control tokens.
\<close>

theorem overrunning_entry_ends_parsing:
  assumes cfg: "decompress_wasmConfig cfg = (dictStart, dictEnd)"
    and wf: "wellFormedEntries dictEnd es"
    and m: "m \<noteq> dictEnd"
    and len: "length rest < unat len"
  shows "map_of (extractDictionary (dictStart # entryTokens es @ m # len # rest) cfg) = map_of (rev es)
       \<and> (distinct (map fst es) \<longrightarrow>
            extractDictionary (dictStart # entryTokens es @ m # len # rest) cfg = es)
       \<and> (decompress_wasmConfig (None :: DecompressionConfig option) = (dictStart, dictEnd) \<longrightarrow>
            buildDictionaryMap (dictStart # entryTokens es @ m # len # rest) =
            extractDictionary (dictStart # entryTokens es @ m # len # rest) cfg)
       \<and> map_of (extractDictionary (dictStart # entryTokens es) cfg) = map_of (rev es)
       \<and> (decompress_wasmConfig (None :: DecompressionConfig option) = (dictStart, dictEnd) \<longrightarrow>
            buildDictionaryMap (dictStart # entryTokens es) =
            extractDictionary (dictStart # entryTokens es) cfg)"
proof -
  have d: "extractDictionary (dictStart # entryTokens es @ m # len # rest) c = setAll es []"
    if "decompress_wasmConfig c = (dictStart, dictEnd)" for c :: "'b DecompressionConfig_scheme option"
    by (rule extractDictionary_entries[OF that wf]) (use m len in simp)
  have e: "extractDictionary (dictStart # entryTokens es) c = setAll es []"
    if "decompress_wasmConfig c = (dictStart, dictEnd)" for c :: "'b DecompressionConfig_scheme option"
    using extractDictionary_entries[OF that wf, of "[]"] by simp
  show ?thesis
    by (simp add: d[OF cfg] e[OF cfg] map_of_setAll setAll_distinct buildDictionaryMap_eq d e)
qed

theorem overrunning_entry_ends_parsing_witness:
  "map_of (extractDictionary [0xFFFFFFF0, 0xFFFF0000, 1, 7, 0xFFFF0001, 5, 1, 2, 0xFFFFFFF1, 0xFFFF0000]
      (None :: DecompressionConfig option)) = map_of [(0xFFFF0000, [7])]
   \<and> extractDictionary [0xFFFFFFF0, 0xFFFF0000, 1, 7, 0xFFFF0001, 5, 1, 2, 0xFFFFFFF1, 0xFFFF0000]
      (None :: DecompressionConfig option) = [(0xFFFF0000, [7])]
   \<and> buildDictionaryMap [0xFFFFFFF0, 0xFFFF0000, 1, 7, 0xFFFF0001, 5, 1, 2, 0xFFFFFFF1, 0xFFFF0000]
      = extractDictionary [0xFFFFFFF0, 0xFFFF0000, 1, 7, 0xFFFF0001, 5, 1, 2, 0xFFFFFFF1, 0xFFFF0000]
      (None :: DecompressionConfig option)
   \<and> map_of (extractDictionary [0xFFFFFFF0, 0xFFFF0000, 1, 7] (None :: DecompressionConfig option))
      = map_of [(0xFFFF0000, [7])]
   \<and> buildDictionaryMap [0xFFFFFFF0, 0xFFFF0000, 1, 7]
      = extractDictionary [0xFFFFFFF0, 0xFFFF0000, 1, 7] (None :: DecompressionConfig option)"
  using overrunning_entry_ends_parsing[of "None :: DecompressionConfig option" "0xFFFFFFF0" "0xFFFFFFF1" "[(0xFFFF0000, [7])]"
      "0xFFFF0001" "[1, 2, 0xFFFFFFF1, 0xFFFF0000]" 5]
  by (simp add: decompress_wasmConfig_def orDefault_def DEFAULT_CONFIG_def wellFormedEntries_def)

text \<open>
  Claim C3 as stated fails on the dictionary parsers: on the stream
  \<^verbatim>\<open>[DICT_START, M, 5, 1, 2, DICT_END, M]\<close> both return the empty map and no
  error.
\<close>

theorem corrupt_stream_parsed_without_error:
  "extractDictionary [0xFFFFFFF0, 0xFFFF0000, 5, 1, 2, 0xFFFFFFF1, 0xFFFF0000]
      (None :: DecompressionConfig option) = []
   \<and> buildDictionaryMap [0xFFFFFFF0, 0xFFFF0000, 5, 1, 2, 0xFFFFFFF1, 0xFFFF0000] = []"
  by (simp add: evaluate)

text \<open>
  Claim C8. For every list of dictionary tokens, \<^verbatim>\<open>buildDictionaryMap\<close>,
  \<^verbatim>\<open>extractDictionary\<close> with a configuration whose control tokens are the
  defaults, and the parser inside \<^verbatim>\<open>finish\<close> of a streaming compressor created
  with a configuration that merges to the default one produce the same map,
  with the same order of keys.
\<close>

theorem dictionary_parsers_agree:
  assumes "decompress_wasmConfig cfg =
             (ResolvedConfig.dictStartToken DEFAULT_CONFIG, ResolvedConfig.dictEndToken DEFAULT_CONFIG)"
    and "mergeConfig ccfg = DEFAULT_CONFIG"
  shows "buildDictionaryMap ts = extractDictionary ts cfg
       \<and> finish_dictionaryMap (config (createStreamingCompressor ccfg)) ts = extractDictionary ts cfg"
proof -
  have "extractDictionary ts cfg = extractDictionary ts (None :: DecompressionConfig option)"
    using tokens_of_cfg[OF assms(1)] by (simp add: extractDictionary_def orDefault_def)
  moreover have "config (createStreamingCompressor ccfg) = config (createStreamingCompressor None)"
    using assms(2) by (simp add: createStreamingCompressor_def Let_def mergeConfig_def orDefault_def)
  ultimately show ?thesis
    by (simp add: buildDictionaryMap_eq finish_dictionaryMap_eq)
qed

text \<open>
  No configuration at all, on a stream with two entries for one meta-token and
  an entry for another.
\<close>

theorem dictionary_parsers_agree_witness:
  "buildDictionaryMap
     [0xFFFFFFF0, 0xFFFF0000, 2, 1, 2, 0xFFFF0001, 1, 3, 0xFFFF0000, 1, 9, 0xFFFFFFF1, 0xFFFF0000]
     = [(0xFFFF0000, [9]), (0xFFFF0001, [3])]
   \<and> extractDictionary
     [0xFFFFFFF0, 0xFFFF0000, 2, 1, 2, 0xFFFF0001, 1, 3, 0xFFFF0000, 1, 9, 0xFFFFFFF1, 0xFFFF0000]
     (None :: DecompressionConfig option) = [(0xFFFF0000, [9]), (0xFFFF0001, [3])]
   \<and> finish_dictionaryMap (config (createStreamingCompressor None))
     [0xFFFFFFF0, 0xFFFF0000, 2, 1, 2, 0xFFFF0001, 1, 3, 0xFFFF0000, 1, 9, 0xFFFFFFF1, 0xFFFF0000]
     = [(0xFFFF0000, [9]), (0xFFFF0001, [3])]"
  using dictionary_parsers_agree[of "None :: DecompressionConfig option" None
      "[0xFFFFFFF0, 0xFFFF0000, 2, 1, 2, 0xFFFF0001, 1, 3, 0xFFFF0000, 1, 9, 0xFFFFFFF1, 0xFFFF0000]"]
  by (simp add: evaluate mergeConfig_def)

section \<open>Streams without a dictionary\<close>

text \<open>
  The deserializer on the streams of scenarios 1 and 5 of the specification,
  with the default control tokens and meta range.
\<close>

lemma scenario_1_decompresses:
  "core_decompress (metaRange 0xFFFF0000 0xFFFFFFF0) 0xFFFFFFF0 0xFFFFFFF1
     [0xFFFFFFF0, 0xFFFF0000, 3, 1, 2, 3, 0xFFFFFFF1, 0xFFFF0000, 0xFFFF0000, 0xFFFF0000]
   = Inr [1, 2, 3, 1, 2, 3, 1, 2, 3]"
  by (simp add: core_decompress_def metaRange_def Let_def)

lemma scenario_5_truncated:
  "core_decompress (metaRange 0xFFFF0000 0xFFFFFFF0) 0xFFFFFFF0 0xFFFFFFF1
     [0xFFFFFFF0, 0xFFFF0000, 5, 1, 2, 0xFFFFFFF1, 0xFFFF0000]
   = Inl (Truncated 5)"
  by (simp add: core_decompress_def metaRange_def Let_def)

text \<open>
  Claim C2. For every token sequence in which the dictionary-start token of the
  configuration does not occur, \<^verbatim>\<open>decompress\<close> returns the sequence unchanged,
  whatever the meta range, and \<^verbatim>\<open>extractDictionary\<close> returns the empty map.
\<close>

theorem stream_without_start_token:
  assumes "decompress_wasmConfig cfg = (dictStart, dictEnd)"
    and "dictStart \<notin> set W"
  shows "decompress (core_decompress isMeta) W cfg = Inr W \<and> extractDictionary W cfg = []"
  using assms
  by (simp add: decompress_def core_decompress_def extractDictionary_def normalizeTokens_def
      decompress_wasmConfig_def indexOf_None[THEN iffD2])

text \<open>The uncompressed input of the SDK's tests, with the defaults.\<close>

theorem stream_without_start_token_witness:
  "decompress (core_decompress (metaRange 0xFFFF0000 0xFFFFFFF0)) [1, 2, 3, 4, 5]
     (None :: DecompressionConfig option) = Inr [1, 2, 3, 4, 5]
   \<and> extractDictionary [1, 2, 3, 4, 5] (None :: DecompressionConfig option) = []"
  using stream_without_start_token[of "None :: DecompressionConfig option" "0xFFFFFFF0" "0xFFFFFFF1"
      "[1, 2, 3, 4, 5]" "metaRange 0xFFFF0000 0xFFFFFFF0"]
  by (simp add: decompress_wasmConfig_def orDefault_def DEFAULT_CONFIG_def)

section \<open>Chunked processing\<close>

lemma lt_chunkCount: "0 < c \<Longrightarrow> k < chunkCount n c \<longleftrightarrow> k * c < n"
proof -
  assume c: "0 < c"
  have "k < chunkCount n c \<longleftrightarrow> Suc k \<le> (n + c - 1) div c" by (simp add: chunkCount_def Suc_le_eq)
  also have "\<dots> \<longleftrightarrow> Suc k * c \<le> n + c - 1" using c by (simp add: less_eq_div_iff_mult_less_eq)
  also have "\<dots> \<longleftrightarrow> k * c < n" using c by auto
  finally show ?thesis .
qed

lemma loop_closed_form:
  assumes c: "0 < c"
  shows "processInChunks_loop cb c ts (j * c) acc =
         Some (acc @ map (\<lambda>k. cb (chunkAt c ts k) (k * c)) [j ..< chunkCount (length ts) c])"
proof (induction "chunkCount (length ts) c - j" arbitrary: j acc)
  case 0
  then have "\<not> j < chunkCount (length ts) c" by simp
  then have "\<not> j * c < length ts" using lt_chunkCount[OF c] by simp
  with 0 show ?case by (subst processInChunks_loop.simps) simp
next
  case (Suc d)
  then have j: "j < chunkCount (length ts) c" by simp
  then have lt: "j * c < length ts" using lt_chunkCount[OF c] by simp
  have ch: "take (min (c + j * c) (length ts) - j * c) (drop (j * c) ts) = chunkAt c ts j"
    by (simp add: chunkAt_def min_def)
  from Suc(2) have "d = chunkCount (length ts) c - Suc j" by simp
  from Suc(1)[OF this] have IH: "processInChunks_loop cb c ts (c + j * c) acc' =
         Some (acc' @ map (\<lambda>k. cb (chunkAt c ts k) (k * c)) [Suc j ..< chunkCount (length ts) c])" for acc'
    by simp
  have "processInChunks_loop cb c ts (j * c) acc =
        processInChunks_loop cb c ts (c + j * c) (acc @ [cb (chunkAt c ts j) (j * c)])"
    by (subst processInChunks_loop.simps) (simp add: lt ch Let_def add.commute)
  then show ?case using j by (simp add: IH upt_conv_Cons)
qed

lemma concat_chunks: "concat (map (chunkAt c ts) [0 ..< j]) = take (j * c) ts"
proof (induction j)
  case 0 show ?case by simp
next
  case (Suc j)
  have "take (j * c) ts @ take c (drop (j * c) ts) = take (j * c + c) ts"
    by (simp add: take_add)
  with Suc show ?case by (simp add: chunkAt_def add.commute)
qed

lemma chunkCount_covers: "0 < c \<Longrightarrow> n \<le> chunkCount n c * c"
  using lt_chunkCount[of c "chunkCount n c" n] by (simp add: not_less)

text \<open>
  Claim C10. For a positive chunk size \<open>c\<close> and an input of \<open>n\<close> tokens,
  \<^verbatim>\<open>processInChunks\<close> returns, and its results are those of \<open>\<lceil>n / c\<rceil>\<close>
  calls of the callback in order, the \<open>k\<close>-th call with the tokens from
  offset \<open>k * c\<close>, at most \<open>c\<close> of them, and with the index \<open>k * c\<close>. The chunks
  concatenated give the normalized input, and every chunk but the last has
  \<open>c\<close> tokens.
\<close>

theorem processInChunks_calls:
  assumes "0 < chunkSize"
  shows "processInChunks tokens chunkSize callback =
           Some (map (\<lambda>k. callback (chunkAt chunkSize tokens k) (k * chunkSize))
                   [0 ..< chunkCount (length tokens) chunkSize])
       \<and> concat (map (chunkAt chunkSize tokens) [0 ..< chunkCount (length tokens) chunkSize]) =
           normalizeTokens tokens
       \<and> (\<forall>k. k + 1 < chunkCount (length tokens) chunkSize \<longrightarrow>
             length (chunkAt chunkSize tokens k) = chunkSize)"
proof -
  have a: "processInChunks tokens chunkSize callback =
           Some (map (\<lambda>k. callback (chunkAt chunkSize tokens k) (k * chunkSize))
                   [0 ..< chunkCount (length tokens) chunkSize])"
    using loop_closed_form[OF assms, of callback tokens 0 "[]"]
    by (simp add: processInChunks_def normalizeTokens_def)
  have b: "concat (map (chunkAt chunkSize tokens) [0 ..< chunkCount (length tokens) chunkSize]) =
           normalizeTokens tokens"
    using chunkCount_covers[OF assms, of "length tokens"]
    by (simp add: concat_chunks normalizeTokens_def)
  have c: "length (chunkAt chunkSize tokens k) = chunkSize"
    if "k + 1 < chunkCount (length tokens) chunkSize" for k
  proof -
    from that have "(k + 1) * chunkSize < length tokens" using lt_chunkCount[OF assms] by blast
    then show ?thesis by (simp add: chunkAt_def)
  qed
  from a b c show ?thesis by blast
qed

text \<open>
  The input of \<^verbatim>\<open>tests/streaming.test.ts\<close>: ten tokens in chunks of three, with a
  callback that returns its arguments.
\<close>

theorem processInChunks_calls_witness:
  "processInChunks [1, 2, 3, 4, 5, 6, 7, 8, 9, 10] 3 Pair =
     Some [([1, 2, 3], 0), ([4, 5, 6], 3), ([7, 8, 9], 6), ([10], 9)]"
  using processInChunks_calls[of 3 "[1, 2, 3, 4, 5, 6, 7, 8, 9, 10]" Pair]
  by (simp add: chunkCount_def chunkAt_def upt_rec)

section \<open>The streaming compressor and the defaults\<close>

lemma run_append:
  "run core this (xs @ ys) =
     (let (this1, rs1) = run core this xs; (this2, rs2) = run core this1 ys in (this2, rs1 @ rs2))"
proof (induction xs arbitrary: this)
  case Nil then show ?case by simp
next
  case (Cons c xs)
  show ?case by (cases c) (simp_all add: Cons.IH split: prod.splits)
qed

lemma run_addChunks:
  assumes "\<not> finished this"
  shows "run core this (map AddChunk chunks) =
     (this\<lparr> compressor := (compressor this)\<lparr> accumulated := accumulated (compressor this) @ concat chunks \<rparr>,
             totalChunks := totalChunks this + length chunks,
             totalTokens := totalTokens this + length (concat chunks) \<rparr>,
      map (\<lambda>c. Added) chunks)"
  using assms
proof (induction chunks arbitrary: this)
  case Nil then show ?case by simp
next
  case (Cons c chunks)
  let ?next = "this\<lparr> compressor := add_chunk c (compressor this),
                    totalChunks := totalChunks this + 1,
                    totalTokens := totalTokens this + length c \<rparr>"
  have a: "addChunk c this = (?next, Inr ())"
    using Cons.prems by (simp add: addChunk_def normalizeTokens_def)
  have f: "\<not> finished ?next" using Cons.prems by simp
  note IH = Cons.IH[OF f, unfolded add_chunk_def, simplified]
  show ?case using IH by (simp add: a add_chunk_def)
qed

lemma run_finished:
  assumes "finished this"
  shows "fst (run core this calls) = this \<and> list_all threw (snd (run core this calls))
       \<and> length (snd (run core this calls)) = length calls"
proof (induction calls)
  case Nil then show ?case by simp
next
  case (Cons c calls)
  show ?case
  proof (cases c)
    case (AddChunk ts)
    then show ?thesis using Cons assms by (auto simp add: addChunk_def split: prod.splits)
  next
    case Finish
    then show ?thesis using Cons assms by (auto simp add: finish_def split: prod.splits)
  qed
qed

lemma finish_unfinished:
  assumes "\<not> finished this"
  shows "finished (fst (finish core this))
       \<and> invocations (compressor (fst (finish core this))) =
           invocations (compressor this) @ [accumulated (compressor this)]
       \<and> map_sum id serializedTokens (snd (finish core this)) =
           map_sum id getSerializedTokens (core (wasmConfig (compressor this)) (accumulated (compressor this)))"
  using assms by (simp add: finish_def wasm_finish_def Let_def split: sum.splits)

text \<open>
  Claim C5. On a new streaming compressor every \<^verbatim>\<open>addChunk\<close> succeeds, the
  compressor is not finished, the core compression has not been invoked, and
  the chunks are accumulated in call order. The first \<^verbatim>\<open>finish\<close> invokes the
  core compression once, on the accumulated tokens, and returns what the core
  returns or throws. From then on the compressor is finished: whatever calls
  follow, each of them throws and the object does not change, so the core
  compression has been invoked exactly once.
\<close>

theorem streaming_compressor_lifecycle:
  "(let this0 = createStreamingCompressor cfg;
        (this1, added) = run core this0 (map AddChunk chunks);
        (this2, result) = finish core this1;
        (this3, after) = run core this2 later
    in added = map (\<lambda>c. Added) chunks
     \<and> \<not> isFinished this0 \<and> \<not> isFinished this1
     \<and> invocations (compressor this1) = []
     \<and> accumulated (compressor this1) = concat chunks
     \<and> invocations (compressor this2) = [concat chunks]
     \<and> map_sum id serializedTokens result =
         map_sum id getSerializedTokens (core (mergeConfig cfg) (concat chunks))
     \<and> isFinished this2
     \<and> this3 = this2
     \<and> length after = length later \<and> list_all threw after)"
proof -
  let ?start = "createStreamingCompressor cfg"
  have f0: "\<not> finished ?start" by (simp add: createStreamingCompressor_def Let_def)
  obtain this1 added where r1: "run core ?start (map AddChunk chunks) = (this1, added)"
    by (cases "run core ?start (map AddChunk chunks)")
  from r1 run_addChunks[OF f0, of core chunks]
  have p1: "added = map (\<lambda>c. Added) chunks" "\<not> finished this1" "invocations (compressor this1) = []"
    "accumulated (compressor this1) = concat chunks" "wasmConfig (compressor this1) = mergeConfig cfg"
    by (auto simp: createStreamingCompressor_def new_StreamingCompressorWasm_def Let_def)
  obtain this2 result where r2: "finish core this1 = (this2, result)"
    by (cases "finish core this1")
  from finish_unfinished[OF p1(2), of core] r2 p1
  have p2: "finished this2" "invocations (compressor this2) = [concat chunks]"
    "map_sum id serializedTokens result =
         map_sum id getSerializedTokens (core (mergeConfig cfg) (concat chunks))"
    by simp_all
  obtain this3 after where r3: "run core this2 later = (this3, after)"
    by (cases "run core this2 later")
  from run_finished[OF p2(1), of core later] r3
  have p3: "this3 = this2" "length after = length later" "list_all threw after" by simp_all
  show ?thesis
    using f0 p1 p2 p3 by (simp add: r1 r2 r3 isFinished_def Let_def)
qed

text \<open>Two chunks, \<^verbatim>\<open>finish\<close> with a core that throws, and two calls after it.\<close>

theorem streaming_compressor_lifecycle_witness:
  "(let (this3, outcomes) =
       run failingCore (createStreamingCompressor None)
         [AddChunk [1, 2, 3], AddChunk [4], Finish, AddChunk [4, 5, 6], Finish]
    in isFinished this3 \<and> invocations (compressor this3) = [[1, 2, 3, 4]]
     \<and> outcomes = [Added, Added, Threw MemoryExceeded,
                    Threw (Error ''Cannot add chunks to a finished compressor''),
                    Threw (Error ''Compressor has already been finished'')])"
  using streaming_compressor_lifecycle[of None failingCore "[[1, 2, 3], [4]]" "[AddChunk [4, 5, 6], Finish]"]
  by (simp add: createStreamingCompressor_def new_StreamingCompressorWasm_def addChunk_def finish_def
      wasm_finish_def add_chunk_def normalizeTokens_def isFinished_def failingCore_def Let_def)

text \<open>
  Claim C7. The default configuration has the values of the configuration
  table, and an option the caller omits takes its default: in \<^verbatim>\<open>mergeConfig\<close>,
  in the length bounds of \<^verbatim>\<open>discoverPatterns\<close>, and in the control tokens
  \<^verbatim>\<open>decompress\<close> hands to the core.
\<close>

theorem default_configuration:
  "ResolvedConfig.minSubsequenceLength DEFAULT_CONFIG = 2
   \<and> ResolvedConfig.maxSubsequenceLength DEFAULT_CONFIG = 8
   \<and> ResolvedConfig.selectionMode DEFAULT_CONFIG = greedy
   \<and> ResolvedConfig.beamWidth DEFAULT_CONFIG = 8
   \<and> ResolvedConfig.hierarchicalEnabled DEFAULT_CONFIG = True
   \<and> ResolvedConfig.hierarchicalMaxDepth DEFAULT_CONFIG = 3
   \<and> ResolvedConfig.verify DEFAULT_CONFIG = False
   \<and> ResolvedConfig.dictStartToken DEFAULT_CONFIG = 0xFFFFFFF0
   \<and> ResolvedConfig.dictEndToken DEFAULT_CONFIG = 0xFFFFFFF1
   \<and> ResolvedConfig.nextMetaToken DEFAULT_CONFIG = 0xFFFF0000
   \<and> mergeConfig None = DEFAULT_CONFIG
   \<and> (minSubsequenceLength c = None \<longrightarrow> ResolvedConfig.minSubsequenceLength (mergeConfig (Some c)) = 2)
   \<and> (maxSubsequenceLength c = None \<longrightarrow> ResolvedConfig.maxSubsequenceLength (mergeConfig (Some c)) = 8)
   \<and> (selectionMode c = None \<longrightarrow> ResolvedConfig.selectionMode (mergeConfig (Some c)) = greedy)
   \<and> (beamWidth c = None \<longrightarrow> ResolvedConfig.beamWidth (mergeConfig (Some c)) = 8)
   \<and> (hierarchicalEnabled c = None \<longrightarrow> ResolvedConfig.hierarchicalEnabled (mergeConfig (Some c)) = True)
   \<and> (hierarchicalMaxDepth c = None \<longrightarrow> ResolvedConfig.hierarchicalMaxDepth (mergeConfig (Some c)) = 3)
   \<and> (verify c = None \<longrightarrow> ResolvedConfig.verify (mergeConfig (Some c)) = False)
   \<and> (dictStartToken c = None \<longrightarrow> ResolvedConfig.dictStartToken (mergeConfig (Some c)) = 0xFFFFFFF0)
   \<and> (dictEndToken c = None \<longrightarrow> ResolvedConfig.dictEndToken (mergeConfig (Some c)) = 0xFFFFFFF1)
   \<and> (nextMetaToken c = None \<longrightarrow> ResolvedConfig.nextMetaToken (mergeConfig (Some c)) = 0xFFFF0000)
   \<and> discoverPatterns_bounds None None = (2, 8)
   \<and> discoverPatterns_bounds (Some a) None = (a, 8)
   \<and> discoverPatterns_bounds None (Some b) = (2, b)
   \<and> decompress_wasmConfig (None :: DecompressionConfig option) = (0xFFFFFFF0, 0xFFFFFFF1)
   \<and> (dictStartToken d = None \<longrightarrow> fst (decompress_wasmConfig (Some d)) = 0xFFFFFFF0)
   \<and> (dictEndToken d = None \<longrightarrow> snd (decompress_wasmConfig (Some d)) = 0xFFFFFFF1)"
  by (simp add: DEFAULT_CONFIG_def mergeConfig_def orDefault_def discoverPatterns_bounds_def
      decompress_wasmConfig_def)

text \<open>
  A configuration that sets the minimum length and the dictionary-start token
  and omits every other option.
\<close>

theorem default_configuration_witness:
  "ResolvedConfig.minSubsequenceLength (mergeConfig (Some
      \<lparr> dictStartToken = Some 7, dictEndToken = None,
        minSubsequenceLength = Some 3, maxSubsequenceLength = None, selectionMode = None,
        beamWidth = None, hierarchicalEnabled = None, hierarchicalMaxDepth = None,
        staticDictionary = None, streamingThreshold = None, maxMemoryMb = None,
        verify = None, nextMetaToken = None \<rparr>)) = 3
   \<and> ResolvedConfig.maxSubsequenceLength (mergeConfig (Some
      \<lparr> dictStartToken = Some 7, dictEndToken = None,
        minSubsequenceLength = Some 3, maxSubsequenceLength = None, selectionMode = None,
        beamWidth = None, hierarchicalEnabled = None, hierarchicalMaxDepth = None,
        staticDictionary = None, streamingThreshold = None, maxMemoryMb = None,
        verify = None, nextMetaToken = None \<rparr>)) = 8
   \<and> ResolvedConfig.nextMetaToken (mergeConfig (Some
      \<lparr> dictStartToken = Some 7, dictEndToken = None,
        minSubsequenceLength = Some 3, maxSubsequenceLength = None, selectionMode = None,
        beamWidth = None, hierarchicalEnabled = None, hierarchicalMaxDepth = None,
        staticDictionary = None, streamingThreshold = None, maxMemoryMb = None,
        verify = None, nextMetaToken = None \<rparr>)) = 0xFFFF0000
   \<and> decompress_wasmConfig (Some \<lparr> dictStartToken = Some 7, dictEndToken = None \<rparr>)
       = (7, 0xFFFFFFF1)"
  using default_configuration[of
      "\<lparr> dictStartToken = Some 7, dictEndToken = None,
        minSubsequenceLength = Some 3, maxSubsequenceLength = None, selectionMode = None,
        beamWidth = None, hierarchicalEnabled = None, hierarchicalMaxDepth = None,
        staticDictionary = None, streamingThreshold = None, maxMemoryMb = None,
        verify = None, nextMetaToken = None \<rparr>" 3 8
      "\<lparr> dictStartToken = Some 7, dictEndToken = None \<rparr>"]
  by (simp add: mergeConfig_def orDefault_def decompress_wasmConfig_def DEFAULT_CONFIG_def)


section \<open>The round trip\<close>

text \<open>One pass of the driver, for running it on a depth given as a numeral.\<close>

lemma passes_numeral:
  "passes select cfg (numeral n) next b =
     (let sel = select cfg b in
      if sel = [] then Inr ([], b)
      else if unat (ResolvedConfig.dictStartToken cfg) - unat next < length sel then Inl ConfigInvalid
      else
        (let entries = dictionaryEntries next sel;
             body = replaceFrom (occurrenceTable next sel) 0 b
         in case passes select cfg (pred_numeral n) (next + word_of_nat (length sel)) body of
              Inl e \<Rightarrow> Inl e
            | Inr (es, final) \<Rightarrow> Inr (entries @ es, final)))"
  by (simp add: numeral_eq_Suc)

text \<open>
  Scenarios 1 and 4 of the specification: the input \<open>[1, 2, 3, 1, 2, 3, 1, 2, 3]\<close>
  with its pattern selected three times, and an input that holds the
  dictionary-start token.
\<close>

lemma scenario_1_compresses:
  "map_sum id getSerializedTokens (core_compress scenarioSelect (\<lambda>t. 0) DEFAULT_CONFIG [1, 2, 3, 1, 2, 3, 1, 2, 3])
  = Inr [0xFFFFFFF0, 0xFFFF0000, 3, 1, 2, 3, 0xFFFFFFF1, 0xFFFF0000, 0xFFFF0000, 0xFFFF0000]"
  by (simp add: core_compress_def DEFAULT_CONFIG_def configInvalid_def collides_def metaRange_def scenarioSelect_def Let_def passes_numeral)

lemma scenario_4_collision:
  "core_compress scenarioSelect (\<lambda>t. 0) DEFAULT_CONFIG [1, 0xFFFFFFF0] = Inl TokenRangeCollision"
  by (simp add: core_compress_def DEFAULT_CONFIG_def configInvalid_def collides_def metaRange_def scenarioSelect_def Let_def)










































end
